theory Spec2Isabelle
  imports Main "HOL-Library.Char_ord" "HOL-Library.List_Lexorder"
begin

section \<open>Payment statuses and the three transition tables\<close>

text \<open>
  \<open>PaymentStatus\<close> of \<open>lib/types/payment.ts\<close>, a string union in the source.
  \<open>status_name\<close> gives back the string each constructor stands for; the lifecycle
  module builds its lookup keys from these strings.
\<close>

datatype PaymentStatus =
  draft | submitted | requires_action | processing | succeeded | failed | canceled

fun status_name :: "PaymentStatus \<Rightarrow> string" where
  "status_name draft = ''draft''"
| "status_name submitted = ''submitted''"
| "status_name requires_action = ''requires_action''"
| "status_name processing = ''processing''"
| "status_name succeeded = ''succeeded''"
| "status_name failed = ''failed''"
| "status_name canceled = ''canceled''"

subsection \<open>The lifecycle module (\<open>PAYMENT_TRANSITIONS\<close>, \<open>canTransition\<close>)\<close>

text \<open>
  \<open>TransitionDefinition\<close>: the fields \<open>from\<close>, \<open>to\<close>, \<open>action\<close> and
  \<open>isDestructive\<close>. The free-text \<open>description\<close> and \<open>sideEffects\<close> take no part
  in any decision and are left out.
\<close>

record TransitionDefinition =
  t_from :: PaymentStatus
  t_to :: PaymentStatus
  action :: string
  isDestructive :: bool

definition mk_transition ::
  "PaymentStatus \<Rightarrow> PaymentStatus \<Rightarrow> string \<Rightarrow> bool \<Rightarrow> TransitionDefinition" where
  "mk_transition f t a d = \<lparr>t_from = f, t_to = t, action = a, isDestructive = d\<rparr>"

definition PAYMENT_TRANSITIONS :: "TransitionDefinition list" where
  "PAYMENT_TRANSITIONS =
    [mk_transition draft submitted ''Submit'' False,
     mk_transition draft canceled ''Cancel'' False,
     mk_transition submitted processing ''Process'' False,
     mk_transition submitted failed ''Fail'' True,
     mk_transition submitted canceled ''Cancel'' False,
     mk_transition processing requires_action ''Require Action'' False,
     mk_transition processing succeeded ''Succeed'' True,
     mk_transition processing failed ''Fail'' True,
     mk_transition requires_action processing ''Continue'' False,
     mk_transition requires_action succeeded ''Succeed'' True,
     mk_transition requires_action failed ''Fail'' True,
     mk_transition requires_action canceled ''Cancel'' False]"

text \<open>The key \<open>`${from}->${to}`\<close> of the lookup map.\<close>

definition transition_key :: "PaymentStatus \<Rightarrow> PaymentStatus \<Rightarrow> string" where
  "transition_key f t = status_name f @ ''->'' @ status_name t"

text \<open>
  \<open>transitionMap\<close>: filled by \<open>forEach\<close> in table order with \<open>Map.set\<close>, so a later
  entry with the same key would replace an earlier one.
\<close>

definition transitionMap :: "string \<rightharpoonup> TransitionDefinition" where
  "transitionMap =
     fold (\<lambda>t m. m(transition_key (t_from t) (t_to t) \<mapsto> t)) PAYMENT_TRANSITIONS Map.empty"

definition getValidTransitions :: "PaymentStatus \<Rightarrow> TransitionDefinition list" where
  "getValidTransitions fromStatus = filter (\<lambda>t. t_from t = fromStatus) PAYMENT_TRANSITIONS"

definition canTransition :: "PaymentStatus \<Rightarrow> PaymentStatus \<Rightarrow> bool" where
  "canTransition f t = (transitionMap (transition_key f t) \<noteq> None)"

definition getTransition :: "PaymentStatus \<Rightarrow> PaymentStatus \<Rightarrow> TransitionDefinition option" where
  "getTransition f t = transitionMap (transition_key f t)"

definition isTerminalStatus :: "PaymentStatus \<Rightarrow> bool" where
  "isTerminalStatus s = (length (getValidTransitions s) = 0)"

subsection \<open>The table of the transition route (\<open>VALID_TRANSITIONS\<close>)\<close>

fun VALID_TRANSITIONS :: "PaymentStatus \<Rightarrow> PaymentStatus list" where
  "VALID_TRANSITIONS draft = [submitted, canceled]"
| "VALID_TRANSITIONS submitted = [processing, canceled]"
| "VALID_TRANSITIONS processing = [succeeded, failed, requires_action]"
| "VALID_TRANSITIONS requires_action = [processing, succeeded, failed, canceled]"
| "VALID_TRANSITIONS succeeded = []"
| "VALID_TRANSITIONS failed = []"
| "VALID_TRANSITIONS canceled = []"

text \<open>The route's test \<open>allowed.includes(targetStatus)\<close>.\<close>

definition route_allows :: "PaymentStatus \<Rightarrow> PaymentStatus \<Rightarrow> bool" where
  "route_allows f t = (t \<in> set (VALID_TRANSITIONS f))"

subsection \<open>The table of the type module (\<open>canTransitionPayment\<close>)\<close>

fun PAYMENT_TRANSITIONS_types :: "PaymentStatus \<Rightarrow> PaymentStatus list" where
  "PAYMENT_TRANSITIONS_types draft = [submitted, canceled]"
| "PAYMENT_TRANSITIONS_types submitted = [processing, failed]"
| "PAYMENT_TRANSITIONS_types processing = [requires_action, succeeded, failed]"
| "PAYMENT_TRANSITIONS_types requires_action = [processing, succeeded, failed, canceled]"
| "PAYMENT_TRANSITIONS_types succeeded = []"
| "PAYMENT_TRANSITIONS_types failed = []"
| "PAYMENT_TRANSITIONS_types canceled = []"

definition canTransitionPayment :: "PaymentStatus \<Rightarrow> PaymentStatus \<Rightarrow> bool" where
  "canTransitionPayment f t = (t \<in> set (PAYMENT_TRANSITIONS_types f))"

subsection \<open>The state graph as the specification words it\<close>

text \<open>
  \<open>draft\<rightarrow>{submitted,canceled}\<close>, \<open>submitted\<rightarrow>{processing,failed,canceled}\<close>,
  \<open>processing\<rightarrow>{requires_action,succeeded,failed}\<close>,
  \<open>requires_action\<rightarrow>{processing,succeeded,failed,canceled}\<close>; the other three
  states are terminal.
\<close>

fun spec_targets :: "PaymentStatus \<Rightarrow> PaymentStatus set" where
  "spec_targets draft = {submitted, canceled}"
| "spec_targets submitted = {processing, failed, canceled}"
| "spec_targets processing = {requires_action, succeeded, failed}"
| "spec_targets requires_action = {processing, succeeded, failed, canceled}"
| "spec_targets succeeded = {}"
| "spec_targets failed = {}"
| "spec_targets canceled = {}"

definition spec_edge :: "PaymentStatus \<Rightarrow> PaymentStatus \<Rightarrow> bool" where
  "spec_edge f t = (t \<in> spec_targets f)"

section \<open>Stream connection state: sequence gaps and reconnect delay\<close>

text \<open>
  The hook \<open>useSSE\<close> keeps \<open>SSEState\<close> in React state and the last sequence number in
  a ref; both are fields of one record here. Timestamps are supplied by the caller
  (\<open>new Date().toISOString()\<close> in the source).
\<close>

datatype SSEConnectionState = connecting | connected | disconnected | error

record SSEState =
  connectionState :: SSEConnectionState
  lastEventAt :: "string option"
  reconnectAttempt :: nat
  missedEvents :: int
  error_msg :: "string option"
  lastSequence :: "int option"
  reconnectTimeout :: "int option"

record SSEOptions =
  maxReconnectAttempts :: nat
  baseReconnectDelayMs :: int
  maxReconnectDelayMs :: int

definition default_options :: SSEOptions where
  "default_options =
     \<lparr>maxReconnectAttempts = 10, baseReconnectDelayMs = 1000, maxReconnectDelayMs = 30000\<rparr>"

definition initial_sse :: SSEState where
  "initial_sse =
     \<lparr>connectionState = disconnected, lastEventAt = None, reconnectAttempt = 0,
      missedEvents = 0, error_msg = None, lastSequence = None, reconnectTimeout = None\<rparr>"

text \<open>
  \<open>eventSource.onmessage\<close>. The event data either parses to an object with a numeric
  \<open>sequence\<close> (\<open>Some sequence\<close>) or \<open>JSON.parse\<close> throws (\<open>None\<close>); the \<open>catch\<close>
  block only logs, so a malformed message leaves the state as it was. The consumer
  callback \<open>onMessage\<close> runs after the state is updated and is not part of it.
\<close>

definition onmessage :: "string \<Rightarrow> int option \<Rightarrow> SSEState \<Rightarrow> SSEState" where
  "onmessage now parsed s =
     (case parsed of
        None \<Rightarrow> s
      | Some sequence \<Rightarrow>
          (let s1 = (case lastSequence s of
                       None \<Rightarrow> s
                     | Some lastSeen \<Rightarrow>
                         if sequence > lastSeen + 1
                         then s\<lparr>missedEvents := missedEvents s + (sequence - lastSeen - 1)\<rparr>
                         else s)
           in s1\<lparr>lastSequence := Some sequence, lastEventAt := Some now\<rparr>))"

text \<open>Messages with well-formed sequence numbers, processed in order.\<close>

definition feed :: "string \<Rightarrow> int list \<Rightarrow> SSEState \<Rightarrow> SSEState" where
  "feed now seqs s = fold (\<lambda>q. onmessage now (Some q)) seqs s"

text \<open>
  \<open>eventSource.onerror\<close>: the state updater. With \<open>nextAttempt\<close> above the maximum the
  state becomes \<open>error\<close> and nothing is scheduled; otherwise a reconnect is scheduled
  after \<open>Math.min(base * Math.pow(2, prev.reconnectAttempt), max)\<close> milliseconds.
  The source computes in doubles; a product of an integer base with a power of two
  is exact there, so integers give the same minimum.
\<close>

definition backoff_delay :: "SSEOptions \<Rightarrow> nat \<Rightarrow> int" where
  "backoff_delay opts prevAttempt =
     min (baseReconnectDelayMs opts * 2 ^ prevAttempt) (maxReconnectDelayMs opts)"

definition onerror :: "SSEOptions \<Rightarrow> SSEState \<Rightarrow> SSEState" where
  "onerror opts prev =
     (let nextAttempt = reconnectAttempt prev + 1 in
      if nextAttempt > maxReconnectAttempts opts
      then prev\<lparr>connectionState := error,
                error_msg := Some ''Failed to reconnect'',
                reconnectAttempt := nextAttempt\<rparr>
      else prev\<lparr>connectionState := disconnected,
                reconnectAttempt := nextAttempt,
                reconnectTimeout := Some (backoff_delay opts (reconnectAttempt prev))\<rparr>)"

section \<open>The backpressure buffer\<close>

text \<open>
  \<open>useBackpressureBuffer\<close>: the refs \<open>bufferRef\<close>, \<open>droppedCountRef\<close>,
  \<open>flushTimeoutRef\<close> and \<open>lastFlushRef\<close> are the fields of one record. The calls of
  the consumer \<open>onFlush\<close> are an effect; \<open>delivered\<close> lists the batches handed to it,
  oldest call first. \<open>Date.now()\<close> is the argument \<open>now\<close>.
\<close>

record 'a BufferRefs =
  buffer :: "'a list"
  droppedCount :: nat
  flushTimeout :: "int option"
  lastFlush :: int
  isThrottling :: bool
  delivered :: "'a list list"

record BufferOptions =
  maxBufferSize :: nat
  flushIntervalMs :: int

definition initial_buffer :: "'a BufferRefs" where
  "initial_buffer =
     \<lparr>buffer = [], droppedCount = 0, flushTimeout = None, lastFlush = 0,
      isThrottling = False, delivered = []\<rparr>"

definition flush :: "int \<Rightarrow> 'a BufferRefs \<Rightarrow> 'a BufferRefs" where
  "flush now s =
     (if length (buffer s) = 0 then s
      else s\<lparr>buffer := [], delivered := delivered s @ [buffer s], lastFlush := now,
             isThrottling := False\<rparr>)"

definition scheduleFlush :: "BufferOptions \<Rightarrow> int \<Rightarrow> 'a BufferRefs \<Rightarrow> 'a BufferRefs" where
  "scheduleFlush opts now s =
     (if flushTimeout s \<noteq> None then s
      else
        (let timeSinceLastFlush = now - lastFlush s;
             delay = max 0 (flushIntervalMs opts - timeSinceLastFlush)
         in if delay = 0 then flush now s
            else s\<lparr>isThrottling := True, flushTimeout := Some delay\<rparr>))"

text \<open>
  The two halves of \<open>push\<close> before the flush is scheduled: \<open>evict\<close> is the branch
  \<open>if (bufferRef.current.length >= maxBufferSize)\<close> with \<open>shift()\<close> (which leaves an
  empty array empty) and the counter, \<open>enqueue\<close> is \<open>bufferRef.current.push(item)\<close>.
\<close>

definition evict :: "BufferOptions \<Rightarrow> 'a BufferRefs \<Rightarrow> 'a BufferRefs" where
  "evict opts s =
     (if length (buffer s) \<ge> maxBufferSize opts
      then s\<lparr>buffer := tl (buffer s), droppedCount := droppedCount s + 1\<rparr>
      else s)"

definition enqueue :: "'a \<Rightarrow> 'a BufferRefs \<Rightarrow> 'a BufferRefs" where
  "enqueue item s = s\<lparr>buffer := buffer s @ [item]\<rparr>"

definition push :: "BufferOptions \<Rightarrow> int \<Rightarrow> 'a \<Rightarrow> 'a BufferRefs \<Rightarrow> 'a BufferRefs" where
  "push opts now item s = scheduleFlush opts now (enqueue item (evict opts s))"

text \<open>The timer callback set by \<open>scheduleFlush\<close>, and \<open>forceFlush\<close>.\<close>

definition timer_fires :: "int \<Rightarrow> 'a BufferRefs \<Rightarrow> 'a BufferRefs" where
  "timer_fires now s = flush now (s\<lparr>flushTimeout := None\<rparr>)"

definition forceFlush :: "int \<Rightarrow> 'a BufferRefs \<Rightarrow> 'a BufferRefs" where
  "forceFlush now s = flush now (s\<lparr>flushTimeout := None\<rparr>)"

definition resetDroppedCount :: "'a BufferRefs \<Rightarrow> 'a BufferRefs" where
  "resetDroppedCount s = s\<lparr>droppedCount := 0\<rparr>"

text \<open>A run of \<open>push\<close> calls, each with the clock reading at its call.\<close>

fun push_all :: "BufferOptions \<Rightarrow> 'a BufferRefs \<Rightarrow> (int \<times> 'a) list \<Rightarrow> 'a BufferRefs" where
  "push_all opts s [] = s"
| "push_all opts s (x # xs) = push_all opts (push opts (fst x) (snd x) s) xs"

section \<open>Payments: requests, stored entities, responses\<close>

datatype PaymentIntent = capture | authorize_only

text \<open>\<open>paymentMethod\<close>: a card token or a bank account id, tagged by \<open>type\<close>.\<close>

datatype PaymentMethod = card string | bank_transfer string

text \<open>
  The body of a creation request, \<open>Omit<PaymentRequest, 'idempotencyKey'>\<close>. The
  optional fields of the interface are options.
\<close>

record PaymentRequest =
  req_amount :: int
  req_currency :: string
  req_paymentMethod :: PaymentMethod
  req_intent :: PaymentIntent
  req_merchantId :: string
  req_customerId :: "string option"
  req_description :: "string option"
  req_metadata :: "(string \<times> string) list option"

record Payment =
  payment_id :: string
  idempotencyKey :: string
  status :: PaymentStatus
  amount :: int
  currency :: string
  intent :: PaymentIntent
  merchantId :: string
  merchantName :: string
  customerId :: "string option"
  description :: "string option"
  transactionIds :: "string list"
  failureCode :: "string option"
  failureMessage :: "string option"
  metadata :: "(string \<times> string) list"
  createdAt :: string
  updatedAt :: string
  completedAt :: "string option"

record StoredPayment =
  payment :: Payment
  version :: int
  idempotencyHash :: "string option"

record IdempotencyRecord =
  paymentId :: string
  requestHash :: string
  result :: Payment

text \<open>The two process-wide maps \<open>paymentStore\<close> and \<open>idempotencyKeyStore\<close>.\<close>

record ServerState =
  paymentStore :: "string \<rightharpoonup> StoredPayment"
  idempotencyKeyStore :: "string \<rightharpoonup> IdempotencyRecord"

datatype error_code =
    MISSING_IDEMPOTENCY_KEY | INVALID_IDEMPOTENCY_KEY | IDEMPOTENCY_CONFLICT | INVALID_AMOUNT
  | NOT_FOUND | CONCURRENT_MODIFICATION | INVALID_TRANSITION | INVALID_STATE | INVALID_STATUS
  | SERVICE_UNAVAILABLE | INTERNAL_ERROR

text \<open>
  An HTTP response: the status code with the entity of a success body, or with the
  \<open>code\<close> of an error body. Messages and freshness metadata are not modelled.
\<close>

datatype 'a response = Success nat 'a | Failure nat error_code

fun http_status :: "'a response \<Rightarrow> nat" where
  "http_status (Success c x) = c"
| "http_status (Failure c e) = c"

section \<open>Request fingerprints: \<open>JSON.stringify\<close> with a property list\<close>

datatype json =
  JNull | JBool bool | JNum int | JStr string | JArr "json list" | JObj "(string \<times> json) list"

text \<open>The request body as the object \<open>request.json()\<close> yields; absent fields have no entry.\<close>

fun method_json :: "PaymentMethod \<Rightarrow> json" where
  "method_json (card cardToken) = JObj [(''type'', JStr ''card''), (''cardToken'', JStr cardToken)]"
| "method_json (bank_transfer accountId) =
     JObj [(''type'', JStr ''bank_transfer''), (''accountId'', JStr accountId)]"

fun intent_name :: "PaymentIntent \<Rightarrow> string" where
  "intent_name capture = ''capture''"
| "intent_name authorize_only = ''authorize_only''"

definition optional_entry :: "string \<Rightarrow> 'a option \<Rightarrow> ('a \<Rightarrow> json) \<Rightarrow> (string \<times> json) list" where
  "optional_entry k v f = (case v of None \<Rightarrow> [] | Some x \<Rightarrow> [(k, f x)])"

definition body_json :: "PaymentRequest \<Rightarrow> (string \<times> json) list" where
  "body_json b =
     [(''amount'', JNum (req_amount b)),
      (''currency'', JStr (req_currency b)),
      (''paymentMethod'', method_json (req_paymentMethod b)),
      (''intent'', JStr (intent_name (req_intent b))),
      (''merchantId'', JStr (req_merchantId b))]
     @ optional_entry ''customerId'' (req_customerId b) JStr
     @ optional_entry ''description'' (req_description b) JStr
     @ optional_entry ''metadata'' (req_metadata b) (\<lambda>md. JObj (map (\<lambda>(k, v). (k, JStr v)) md))"

text \<open>
  Decimal digits of an integer, as \<open>JSON.stringify\<close> prints an integral number
  (below \<open>10^21\<close>, where JavaScript switches to exponent notation).
\<close>

function show_nat :: "nat \<Rightarrow> string" where
  "show_nat n =
     (if n < 10 then [''0123456789'' ! n]
      else show_nat (n div 10) @ [''0123456789'' ! (n mod 10)])"
  by pat_completeness auto
termination
  by (relation "measure id") auto

declare show_nat.simps [simp del]

definition show_int :: "int \<Rightarrow> string" where
  "show_int i = (if i < 0 then ''-'' @ show_nat (nat (- i)) else show_nat (nat i))"

text \<open>
  \<open>QuoteJSONString\<close>: the double quote and the backslash are escaped, and so are the
  control characters below \<open>0x20\<close> (short forms for backspace, tab, line feed, form
  feed and carriage return, \<open>\u00XX\<close> otherwise).
\<close>

definition hex_digit :: "nat \<Rightarrow> char" where
  "hex_digit d = ''0123456789abcdef'' ! (d mod 16)"

definition escape_char :: "char \<Rightarrow> string" where
  "escape_char c =
     (if c = CHR 0x22 then [CHR 0x5C, CHR 0x22]
      else if c = CHR 0x5C then [CHR 0x5C, CHR 0x5C]
      else if c = CHR 0x08 then [CHR 0x5C, CHR ''b'']
      else if c = CHR 0x09 then [CHR 0x5C, CHR ''t'']
      else if c = CHR 0x0A then [CHR 0x5C, CHR ''n'']
      else if c = CHR 0x0C then [CHR 0x5C, CHR ''f'']
      else if c = CHR 0x0D then [CHR 0x5C, CHR ''r'']
      else if (of_char c :: nat) < 32
        then [CHR 0x5C, CHR ''u'', CHR ''0'', CHR ''0'',
              hex_digit (of_char c div 16), hex_digit (of_char c)]
      else [c])"

definition quote_json :: "string \<Rightarrow> string" where
  "quote_json s = [CHR 0x22] @ concat (map escape_char s) @ [CHR 0x22]"

fun join_comma :: "string list \<Rightarrow> string" where
  "join_comma [] = []"
| "join_comma [x] = x"
| "join_comma (x # y # ys) = x @ '','' @ join_comma (y # ys)"

text \<open>
  \<open>JSON.stringify(value, propertyList)\<close> with an array as replacer: at \<^emph>\<open>every\<close>
  object of the value, at any depth, only the properties named in the list are
  written, in the order of the list; a listed name the object lacks is skipped.
  Array elements are all written.
\<close>

fun stringify :: "string list \<Rightarrow> json \<Rightarrow> string" where
  "stringify K JNull = ''null''"
| "stringify K (JBool b) = (if b then ''true'' else ''false'')"
| "stringify K (JNum n) = show_int n"
| "stringify K (JStr s) = quote_json s"
| "stringify K (JArr xs) = ''['' @ join_comma (map (stringify K) xs) @ '']''"
| "stringify K (JObj kvs) =
     (let written = map (\<lambda>(k, v). (k, stringify K v)) kvs
      in ''{'' @ join_comma
           (concat (map (\<lambda>k. case map_of written k of
                                None \<Rightarrow> []
                              | Some str \<Rightarrow> [quote_json k @ '':'' @ str]) K))
         @ ''}'')"

text \<open>\<open>hashRequest\<close>: \<open>JSON.stringify(params, Object.keys(params).sort())\<close>.\<close>

definition hashRequest :: "(string \<times> json) list \<Rightarrow> string" where
  "hashRequest params = stringify (sort (map fst params)) (JObj params)"

section \<open>Idempotency keys\<close>

definition is_lower_alnum :: "char \<Rightarrow> bool" where
  "is_lower_alnum c =
     ((CHR ''a'' \<le> c \<and> c \<le> CHR ''z'') \<or> (CHR ''0'' \<le> c \<and> c \<le> CHR ''9''))"

text \<open>
  \<open>isValidIdempotencyKey\<close>: the pattern \<open>/^idem_[a-z0-9]+_[a-z0-9]+$/\<close> and a length
  of at least 15. The character class has no underscore, so the first run ends at
  the first underscore after the prefix.
\<close>

definition isValidIdempotencyKey :: "string \<Rightarrow> bool" where
  "isValidIdempotencyKey key =
     ((take 5 key = ''idem_''
       \<and> takeWhile is_lower_alnum (drop 5 key) \<noteq> []
       \<and> (case dropWhile is_lower_alnum (drop 5 key) of
             [] \<Rightarrow> False
           | c # rest \<Rightarrow> c = CHR ''_'' \<and> rest \<noteq> [] \<and> list_all is_lower_alnum rest))
      \<and> length key \<ge> 15)"

section \<open>The payment handlers\<close>

text \<open>
  Every mock-service handler starts with \<open>applyChaos\<close>, the fault injector, and
  returns its response when it gives one. The argument \<open>chaos\<close> is that result
  (\<open>None\<close> for \<open>null\<close>). The generated id and the clock are arguments too.
\<close>

text \<open>JavaScript's \<open>a || b\<close> on optional strings: the empty string is falsy.\<close>

definition or_else :: "string option \<Rightarrow> string option \<Rightarrow> string option" where
  "or_else a b = (case a of None \<Rightarrow> b | Some x \<Rightarrow> if x = [] then b else Some x)"

definition new_payment :: "string \<Rightarrow> string \<Rightarrow> PaymentRequest \<Rightarrow> string \<Rightarrow> Payment" where
  "new_payment newId key body now =
     \<lparr>payment_id = newId,
      idempotencyKey = key,
      status = draft,
      amount = req_amount body,
      currency = (if req_currency body = [] then ''USD'' else req_currency body),
      intent = req_intent body,
      merchantId = req_merchantId body,
      merchantName = ''Demo Merchant'',
      customerId = or_else (req_customerId body) None,
      description = or_else (req_description body) None,
      transactionIds = [],
      failureCode = None,
      failureMessage = None,
      metadata = (case req_metadata body of None \<Rightarrow> [] | Some md \<Rightarrow> md),
      createdAt = now,
      updatedAt = now,
      completedAt = None\<rparr>"

text \<open>
  \<open>http.post('/api/payments')\<close> of the mock service; the header \<open>Idempotency-Key\<close>
  is \<open>key\<close>. A missing header and an empty one are both falsy in the source's test.
\<close>

definition createPayment ::
  "Payment response option \<Rightarrow> string option \<Rightarrow> PaymentRequest \<Rightarrow> string \<Rightarrow> string \<Rightarrow>
   ServerState \<Rightarrow> Payment response \<times> ServerState" where
  "createPayment chaos key body newId now st =
     (case chaos of
        Some r \<Rightarrow> (r, st)
      | None \<Rightarrow>
          (case key of
             None \<Rightarrow> (Failure 400 MISSING_IDEMPOTENCY_KEY, st)
           | Some ikey \<Rightarrow>
               if ikey = [] then (Failure 400 MISSING_IDEMPOTENCY_KEY, st)
               else if \<not> isValidIdempotencyKey ikey
               then (Failure 400 INVALID_IDEMPOTENCY_KEY, st)
               else
                 (let rhash = hashRequest (body_json body) in
                  case idempotencyKeyStore st ikey of
                    Some existing \<Rightarrow>
                      if requestHash existing \<noteq> rhash
                      then (Failure 422 IDEMPOTENCY_CONFLICT, st)
                      else (Success 200 (result existing), st)
                  | None \<Rightarrow>
                      if req_amount body = 0 \<or> req_amount body \<le> 0
                      then (Failure 400 INVALID_AMOUNT, st)
                      else
                        (let pmt = new_payment newId ikey body now in
                         (Success 201 pmt,
                          st\<lparr>paymentStore := (paymentStore st)(payment_id pmt \<mapsto>
                                 \<lparr>payment = pmt, version = 1,
                                  idempotencyHash = Some rhash\<rparr>),
                               idempotencyKeyStore := (idempotencyKeyStore st)(ikey \<mapsto>
                                 \<lparr>paymentId = payment_id pmt, requestHash = rhash,
                                  result = pmt\<rparr>)\<rparr>)))))"

record TransitionRequest =
  targetStatus :: PaymentStatus
  reason :: "string option"
  tr_failureCode :: "string option"
  tr_failureMessage :: "string option"
  expectedVersion :: "int option"

text \<open>The entity after an applied transition; the same object literal in both handlers.\<close>

definition updatedPayment :: "Payment \<Rightarrow> TransitionRequest \<Rightarrow> string \<Rightarrow> Payment" where
  "updatedPayment p body now =
     p\<lparr>status := targetStatus body,
       updatedAt := now,
       failureCode := or_else (tr_failureCode body) (failureCode p),
       failureMessage := or_else (tr_failureMessage body) (failureMessage p),
       completedAt := (if targetStatus body \<in> set [succeeded, failed, canceled]
                       then Some now else completedAt p)\<rparr>"

text \<open>The write-back both handlers end with: the new version, then the cached result.\<close>

definition update_idempotency_record :: "Payment \<Rightarrow> ServerState \<Rightarrow> ServerState" where
  "update_idempotency_record p st =
     (case idempotencyKeyStore st (idempotencyKey p) of
        None \<Rightarrow> st
      | Some idemRecord \<Rightarrow>
          st\<lparr>idempotencyKeyStore :=
               (idempotencyKeyStore st)(idempotencyKey p \<mapsto> idemRecord\<lparr>result := p\<rparr>)\<rparr>)"

definition apply_transition ::
  "string \<Rightarrow> StoredPayment \<Rightarrow> TransitionRequest \<Rightarrow> string \<Rightarrow> ServerState \<Rightarrow>
   Payment response \<times> ServerState" where
  "apply_transition pid stored body now st =
     (let p = updatedPayment (payment stored) body now;
          st1 = st\<lparr>paymentStore := (paymentStore st)(pid \<mapsto>
                     \<lparr>payment = p, version = version stored + 1,
                      idempotencyHash = idempotencyHash stored\<rparr>)\<rparr>
      in (Success 200 p, update_idempotency_record p st1))"

text \<open>
  \<open>http.post('/api/payments/:id/transition')\<close> of the mock service: legality comes
  from the lifecycle module's \<open>canTransition\<close>.
\<close>

definition transitionPayment ::
  "Payment response option \<Rightarrow> string \<Rightarrow> TransitionRequest \<Rightarrow> string \<Rightarrow> ServerState \<Rightarrow>
   Payment response \<times> ServerState" where
  "transitionPayment chaos pid body now st =
     (case chaos of
        Some r \<Rightarrow> (r, st)
      | None \<Rightarrow>
          (case paymentStore st pid of
             None \<Rightarrow> (Failure 404 NOT_FOUND, st)
           | Some stored \<Rightarrow>
               if expectedVersion body \<noteq> None \<and> expectedVersion body \<noteq> Some (version stored)
               then (Failure 409 CONCURRENT_MODIFICATION, st)
               else if status (payment stored) = targetStatus body
               then (Success 200 (payment stored), st)
               else if \<not> canTransition (status (payment stored)) (targetStatus body)
               then (Failure 422 INVALID_TRANSITION, st)
               else apply_transition pid stored body now st))"

text \<open>
  \<open>POST /api/payments/[id]/transition\<close> of the API route: the same steps, with
  legality from the route's own \<open>VALID_TRANSITIONS\<close>.
\<close>

definition transitionPayment_route ::
  "string \<Rightarrow> TransitionRequest \<Rightarrow> string \<Rightarrow> ServerState \<Rightarrow> Payment response \<times> ServerState" where
  "transitionPayment_route pid body now st =
     (case paymentStore st pid of
        None \<Rightarrow> (Failure 404 NOT_FOUND, st)
      | Some stored \<Rightarrow>
          if expectedVersion body \<noteq> None \<and> expectedVersion body \<noteq> Some (version stored)
          then (Failure 409 CONCURRENT_MODIFICATION, st)
          else if status (payment stored) = targetStatus body
          then (Success 200 (payment stored), st)
          else if \<not> route_allows (status (payment stored)) (targetStatus body)
          then (Failure 422 INVALID_TRANSITION, st)
          else apply_transition pid stored body now st)"

section \<open>The idempotency store class\<close>

record 'a StoreEntry =
  entry_result :: 'a
  entry_requestHash :: string
  entry_createdAt :: int

record 'a IdempotencyStore =
  store :: "string \<rightharpoonup> 'a StoreEntry"
  ttlMs :: int

datatype 'a IdempotencyResult = New string | Duplicate 'a | Conflict


definition check ::
  "string \<Rightarrow> string \<Rightarrow> int \<Rightarrow> 'a IdempotencyStore \<Rightarrow> 'a IdempotencyResult \<times> 'a IdempotencyStore" where
  "check key hash now s =
     (case store s key of
        None \<Rightarrow> (New key, s)
      | Some existing \<Rightarrow>
          if now - entry_createdAt existing > ttlMs s
          then (New key, s\<lparr>store := (store s)(key := None)\<rparr>)
          else if entry_requestHash existing \<noteq> hash then (Conflict, s)
          else (Duplicate (entry_result existing), s))"


section \<open>Payout batches and manual reconciliation\<close>

text \<open>
  \<open>PayoutStatus\<close>, \<open>PayoutItemStatus\<close> and \<open>AttentionLevel\<close> of
  \<open>lib/types/payout.ts\<close>. Their members share names with one another and with the
  payment statuses, so each carries a prefix here.
\<close>

datatype PayoutStatus =
    b_pending | b_processing | b_in_transit | b_settled | b_partially_settled
  | b_failed | b_returned | b_requires_reconciliation

datatype PayoutItemStatus = i_pending | i_settled | i_failed | i_returned

datatype AttentionLevel = att_none | att_info | att_warning | att_action_required

record PayoutItem =
  item_id :: string
  item_transactionId :: string
  item_status :: PayoutItemStatus
  item_amount :: int
  item_fee :: int
  item_netAmount :: int
  item_merchantId :: string
  item_failureCode :: "string option"
  item_failureMessage :: "string option"
  item_settledAt :: "string option"

record PayoutBatch =
  batch_id :: string
  batch_status :: PayoutStatus
  attentionLevel :: AttentionLevel
  attentionReason :: "string option"
  batch_merchantId :: string
  batch_merchantName :: string
  itemCount :: int
  settledItemCount :: int
  failedItemCount :: int
  grossAmount :: int
  totalFees :: int
  netAmount :: int
  settledAmount :: int
  batch_currency :: string
  items :: "PayoutItem list"
  bankAccountLast4 :: string
  settlementDays :: int
  batch_createdAt :: string
  processedAt :: "string option"
  expectedSettlementAt :: "string option"
  settledAt :: "string option"
  failureReason :: "string option"
  reconciliationNotes :: "string option"
  lastReconciledAt :: "string option"

text \<open>
  The body of a reconcile request. \<open>resolvedStatus\<close> is \<open>None\<close> when the field is
  missing or is no payout status at all; \<open>rec_notes\<close> (the field \<open>notes\<close>) and \<open>settledAmount\<close> are \<open>None\<close>
  when missing.
\<close>

record ReconcileRequest =
  resolvedStatus :: "PayoutStatus option"
  rec_notes :: "string option"
  rec_settledAmount :: "int option"

definition validResolutions :: "PayoutStatus list" where
  "validResolutions = [b_settled, b_failed, b_returned, b_partially_settled]"

text \<open>The object literal \<open>updatedBatch\<close>, the same in both handlers.\<close>

definition updatedBatch :: "PayoutBatch \<Rightarrow> PayoutStatus \<Rightarrow> ReconcileRequest \<Rightarrow> string \<Rightarrow> PayoutBatch" where
  "updatedBatch batch resolved body now =
     batch\<lparr>batch_status := resolved,
           attentionLevel := att_none,
           attentionReason := None,
           reconciliationNotes := rec_notes body,
           lastReconciledAt := Some now,
           settledAt := (if resolved = b_settled then Some now else settledAt batch),
           settledAmount := (case rec_settledAmount body of
                               None \<Rightarrow> settledAmount batch
                             | Some a \<Rightarrow> a)\<rparr>"

text \<open>\<open>http.post('*/api/payouts/:id/reconcile')\<close> of the mock service.\<close>

definition reconcilePayout ::
  "PayoutBatch response option \<Rightarrow> string \<Rightarrow> ReconcileRequest \<Rightarrow> string \<Rightarrow>
   (string \<rightharpoonup> PayoutBatch) \<Rightarrow> PayoutBatch response \<times> (string \<rightharpoonup> PayoutBatch)" where
  "reconcilePayout chaos bid body now payoutStore =
     (case chaos of
        Some r \<Rightarrow> (r, payoutStore)
      | None \<Rightarrow>
          (case payoutStore bid of
             None \<Rightarrow> (Failure 404 NOT_FOUND, payoutStore)
           | Some batch \<Rightarrow>
               if batch_status batch \<noteq> b_requires_reconciliation
                  \<and> batch_status batch \<noteq> b_partially_settled
               then (Failure 422 INVALID_STATE, payoutStore)
               else
                 (case resolvedStatus body of
                    None \<Rightarrow> (Failure 400 INVALID_STATUS, payoutStore)
                  | Some resolved \<Rightarrow>
                      if resolved \<notin> set validResolutions
                      then (Failure 400 INVALID_STATUS, payoutStore)
                      else (Success 200 (updatedBatch batch resolved body now),
                            payoutStore(bid \<mapsto> updatedBatch batch resolved body now)))))"

text \<open>\<open>POST /api/payouts/[id]/reconcile\<close> of the API route.\<close>

definition reconcilePayout_route ::
  "string \<Rightarrow> ReconcileRequest \<Rightarrow> string \<Rightarrow>
   (string \<rightharpoonup> PayoutBatch) \<Rightarrow> PayoutBatch response \<times> (string \<rightharpoonup> PayoutBatch)" where
  "reconcilePayout_route bid body now payoutStore =
     (case payoutStore bid of
        None \<Rightarrow> (Failure 404 NOT_FOUND, payoutStore)
      | Some batch \<Rightarrow>
          if batch_status batch \<noteq> b_requires_reconciliation
             \<and> batch_status batch \<noteq> b_partially_settled
          then (Failure 422 INVALID_STATE, payoutStore)
          else
            (case resolvedStatus body of
               None \<Rightarrow> (Failure 400 INVALID_STATUS, payoutStore)
             | Some resolved \<Rightarrow>
                 if resolved \<notin> set validResolutions
                 then (Failure 400 INVALID_STATUS, payoutStore)
                 else (Success 200 (updatedBatch batch resolved body now),
                       payoutStore(bid \<mapsto> updatedBatch batch resolved body now))))"

section \<open>Sample data for the closed examples\<close>

definition sample_items :: "PayoutItem list" where
  "sample_items =
     [\<lparr>item_id = ''pi_1'', item_transactionId = ''txn_1'', item_status = i_failed,
       item_amount = 5000, item_fee = 150, item_netAmount = 4850, item_merchantId = ''merch_001'',
       item_failureCode = Some ''account_closed'', item_failureMessage = None,
       item_settledAt = None\<rparr>,
      \<lparr>item_id = ''pi_2'', item_transactionId = ''txn_2'', item_status = i_settled,
       item_amount = 7000, item_fee = 210, item_netAmount = 6790, item_merchantId = ''merch_001'',
       item_failureCode = None, item_failureMessage = None,
       item_settledAt = Some ''2026-01-02T00:00:00.000Z''\<rparr>]"

definition sample_batch :: PayoutBatch where
  "sample_batch =
     \<lparr>batch_id = ''po_1'', batch_status = b_requires_reconciliation,
      attentionLevel = att_action_required,
      attentionReason = Some ''Bank response ambiguous'',
      batch_merchantId = ''merch_001'', batch_merchantName = ''TechCorp Solutions'',
      itemCount = 2, settledItemCount = 1, failedItemCount = 1,
      grossAmount = 12000, totalFees = 360, netAmount = 11640, settledAmount = 6790,
      batch_currency = ''USD'', items = sample_items, bankAccountLast4 = ''4242'',
      settlementDays = 2, batch_createdAt = ''2026-01-01T00:00:00.000Z'',
      processedAt = Some ''2026-01-01T06:00:00.000Z'',
      expectedSettlementAt = Some ''2026-01-03T00:00:00.000Z'',
      settledAt = None, failureReason = None, reconciliationNotes = None,
      lastReconciledAt = None\<rparr>"

definition sample_request :: PaymentRequest where
  "sample_request =
     \<lparr>req_amount = 1000, req_currency = ''USD'', req_paymentMethod = card ''tok_visa_1'',
      req_intent = capture, req_merchantId = ''m1'', req_customerId = None,
      req_description = None, req_metadata = Some [(''order'', ''A-17'')]\<rparr>"

definition sample_payment :: "PaymentStatus \<Rightarrow> Payment" where
  "sample_payment s =
     \<lparr>payment_id = ''pay_seed_5'', idempotencyKey = ''idem_1767225600000_4821'',
      status = s, amount = 2500, currency = ''EUR'', intent = capture,
      merchantId = ''merch_002'', merchantName = ''Global Retail Inc'',
      customerId = Some ''cust_1001'', description = Some ''Service fee'',
      transactionIds = [], failureCode = None, failureMessage = None, metadata = [],
      createdAt = ''2026-01-01T00:00:00.000Z'', updatedAt = ''2026-01-01T00:00:00.000Z'',
      completedAt = None\<rparr>"

definition sample_state :: "PaymentStatus \<Rightarrow> int \<Rightarrow> ServerState" where
  "sample_state s v =
     \<lparr>paymentStore = [''pay_seed_5'' \<mapsto>
        \<lparr>payment = sample_payment s, version = v, idempotencyHash = None\<rparr>],
      idempotencyKeyStore = Map.empty\<rparr>"

definition transition_to :: "PaymentStatus \<Rightarrow> int option \<Rightarrow> TransitionRequest" where
  "transition_to t v =
     \<lparr>targetStatus = t, reason = None, tr_failureCode = None, tr_failureMessage = None,
      expectedVersion = v\<rparr>"

definition empty_state :: ServerState where
  "empty_state = \<lparr>paymentStore = Map.empty, idempotencyKeyStore = Map.empty\<rparr>"

definition sample_key :: string where
  "sample_key = ''idem_k3x9f2a1_7hq2mz''"

text \<open>Two bodies that differ from \<open>sample_request\<close> in one nested field each.\<close>

definition other_metadata :: PaymentRequest where
  "other_metadata = sample_request\<lparr>req_metadata := Some [(''order'', ''B-99'')]\<rparr>"

definition other_method :: PaymentRequest where
  "other_method = sample_request\<lparr>req_paymentMethod := bank_transfer ''acct_9''\<rparr>"

text \<open>The server state after the first, successful creation.\<close>

definition created_state :: ServerState where
  "created_state =
     snd (createPayment None (Some sample_key) sample_request ''pay_1''
            ''2026-01-01T00:00:00.000Z'' empty_state)"

definition created_payment :: Payment where
  "created_payment = new_payment ''pay_1'' sample_key sample_request ''2026-01-01T00:00:00.000Z''"

section \<open>The transition tables against the state graph\<close>

lemma transitionMap_unfold:
  "transitionMap =
     [transition_key draft submitted \<mapsto> mk_transition draft submitted ''Submit'' False,
      transition_key draft canceled \<mapsto> mk_transition draft canceled ''Cancel'' False,
      transition_key submitted processing \<mapsto> mk_transition submitted processing ''Process'' False,
      transition_key submitted failed \<mapsto> mk_transition submitted failed ''Fail'' True,
      transition_key submitted canceled \<mapsto> mk_transition submitted canceled ''Cancel'' False,
      transition_key processing requires_action \<mapsto>
        mk_transition processing requires_action ''Require Action'' False,
      transition_key processing succeeded \<mapsto> mk_transition processing succeeded ''Succeed'' True,
      transition_key processing failed \<mapsto> mk_transition processing failed ''Fail'' True,
      transition_key requires_action processing \<mapsto>
        mk_transition requires_action processing ''Continue'' False,
      transition_key requires_action succeeded \<mapsto>
        mk_transition requires_action succeeded ''Succeed'' True,
      transition_key requires_action failed \<mapsto> mk_transition requires_action failed ''Fail'' True,
      transition_key requires_action canceled \<mapsto>
        mk_transition requires_action canceled ''Cancel'' False]"
  by (simp add: transitionMap_def PAYMENT_TRANSITIONS_def mk_transition_def)

text \<open>
  The lifecycle module's \<open>canTransition\<close> is exactly the state graph of the
  specification.
\<close>

lemma canTransition_iff_spec_edge: "canTransition f t \<longleftrightarrow> spec_edge f t"
  unfolding canTransition_def transitionMap_unfold spec_edge_def
  by (cases f; cases t; simp add: transition_key_def)

text \<open>
  C1. The claim asks every code path that validates a payment transition to answer
  exactly as the state graph does. The lifecycle module does, but the table of the
  transition route has no edge from \<open>submitted\<close> to \<open>failed\<close>, and the table of the
  type module has no edge from \<open>submitted\<close> to \<open>canceled\<close>: at these two pairs the
  three checks of the repository disagree with one another.
\<close>

theorem C1_tables_disagree:
  "spec_edge submitted failed \<and> canTransition submitted failed \<and>
   \<not> route_allows submitted failed \<and>
   spec_edge submitted canceled \<and> canTransition submitted canceled \<and>
   \<not> canTransitionPayment submitted canceled"
  by (simp add: canTransition_iff_spec_edge spec_edge_def route_allows_def
      canTransitionPayment_def)

section \<open>Sequence gaps\<close>

lemma feed_1_2_5_6:
  "feed now [1, 2, 5, 6] initial_sse =
     initial_sse\<lparr>missedEvents := 2, lastSequence := Some 6, lastEventAt := Some now\<rparr>"
  by (simp add: feed_def onmessage_def initial_sse_def)

text \<open>
  C5 (as stated). From the fresh connection state the sequence numbers 1, 2, 5, 6
  do not leave the missed-events counter at 3.
\<close>

theorem C5_missed_is_not_3:
  "missedEvents (feed ''2026-01-01T00:00:00.000Z'' [1, 2, 5, 6] initial_sse) \<noteq> 3"
  by (simp add: feed_1_2_5_6)

text \<open>
  C5 (amended). From the fresh connection state (\<open>lastSequence\<close> null,
  \<open>missedEvents\<close> 0), processing the sequence numbers 1, 2, 5, 6 in that order leaves
  the missed-events counter at 2: the two lost events 3 and 4.
\<close>

theorem C5_missed_is_2:
  "missedEvents (feed now [1, 2, 5, 6] initial_sse) = 2"
  by (simp add: feed_1_2_5_6)

section \<open>Reconnect delay\<close>

text \<open>
  C7 (as stated). The claim puts a random jitter term into the delay, so that two
  runs at the same attempt number may differ. Two connection states that reach
  their first reconnect attempt with the default options are both scheduled after
  exactly 1000 ms, the bare \<open>base * 2^0\<close>.
\<close>

theorem C7_no_jitter_at_first_attempt:
  "reconnectTimeout (onerror default_options initial_sse) = Some (1000 * 2 ^ 0) \<and>
   reconnectTimeout (onerror default_options (initial_sse\<lparr>missedEvents := 7\<rparr>))
     = Some (1000 * 2 ^ 0)"
  by (simp add: onerror_def backoff_delay_def default_options_def initial_sse_def)

text \<open>
  C7 (amended). When a stream connection errors and the incremented attempt counter
  \<open>k\<close> does not exceed the maximum, the state becomes \<open>disconnected\<close>, the counter
  becomes \<open>k\<close>, and the reconnect is scheduled after exactly
  \<open>min (baseDelay * 2^(k-1)) maxDelay\<close>: there is no jitter term, the delay is a
  function of the options and the attempt number alone.
\<close>

theorem C7_backoff_delay:
  assumes "reconnectAttempt prev + 1 \<le> maxReconnectAttempts opts"
      and "k = reconnectAttempt (onerror opts prev)"
  shows "k = reconnectAttempt prev + 1
       \<and> connectionState (onerror opts prev) = disconnected
       \<and> reconnectTimeout (onerror opts prev)
           = Some (min (baseReconnectDelayMs opts * 2 ^ (k - 1)) (maxReconnectDelayMs opts))"
  using assms by (simp add: onerror_def backoff_delay_def Let_def)

theorem C7_backoff_delay_witness:
  "reconnectAttempt (initial_sse\<lparr>reconnectAttempt := 5\<rparr>) + 1
      \<le> maxReconnectAttempts default_options
   \<and> reconnectAttempt (onerror default_options (initial_sse\<lparr>reconnectAttempt := 5\<rparr>)) = 6
   \<and> reconnectTimeout (onerror default_options (initial_sse\<lparr>reconnectAttempt := 5\<rparr>))
       = Some 30000"
proof -
  let ?s = "initial_sse\<lparr>reconnectAttempt := 5\<rparr>"
  have h: "reconnectAttempt ?s + 1 \<le> maxReconnectAttempts default_options"
    by (simp add: default_options_def initial_sse_def)
  have r: "reconnectAttempt (onerror default_options ?s) = reconnectAttempt ?s + 1
       \<and> connectionState (onerror default_options ?s) = disconnected
       \<and> reconnectTimeout (onerror default_options ?s)
           = Some (min (baseReconnectDelayMs default_options *
                2 ^ (reconnectAttempt (onerror default_options ?s) - 1))
               (maxReconnectDelayMs default_options))"
    using C7_backoff_delay [OF h refl] .
  have a: "reconnectAttempt ?s = 5" by (simp add: initial_sse_def)
  from r a have k: "reconnectAttempt (onerror default_options ?s) = 6" by simp
  have d: "min (baseReconnectDelayMs default_options * 2 ^ (6 - 1))
               (maxReconnectDelayMs default_options) = (30000::int)"
    by (simp add: default_options_def)
  from r k d h show ?thesis by simp
qed

section \<open>The buffer bound\<close>

lemma flush_delivered_length:
  "length (delivered (flush now s)) =
     (if buffer s = [] then length (delivered s) else Suc (length (delivered s)))"
  by (simp add: flush_def)

lemma scheduleFlush_cases:
  "scheduleFlush opts now s = s
   \<or> scheduleFlush opts now s = flush now s
   \<or> (\<exists>d. scheduleFlush opts now s = s\<lparr>isThrottling := True, flushTimeout := Some d\<rparr>)"
  by (auto simp add: scheduleFlush_def Let_def)

lemma push_delivered_mono:
  "length (delivered s) \<le> length (delivered (push opts now x s))"
  using scheduleFlush_cases [of opts now "enqueue x (evict opts s)"]
  by (auto simp add: push_def flush_delivered_length enqueue_def evict_def)

lemma push_all_delivered_mono:
  "length (delivered s) \<le> length (delivered (push_all opts s xs))"
proof (induction xs arbitrary: s)
  case Nil
  show ?case by simp
next
  case (Cons x xs)
  have "length (delivered s) \<le> length (delivered (push opts (fst x) (snd x) s))"
    by (rule push_delivered_mono)
  also have "\<dots> \<le> length (delivered (push_all opts (push opts (fst x) (snd x) s) xs))"
    by (rule Cons.IH)
  finally show ?case by simp
qed

lemma push_without_flush:
  assumes "length (delivered (push opts now x s)) = length (delivered s)"
  shows "buffer (push opts now x s) = buffer (enqueue x (evict opts s))"
    and "droppedCount (push opts now x s) = droppedCount (evict opts s)"
  using assms scheduleFlush_cases [of opts now "enqueue x (evict opts s)"]
  by (auto simp add: push_def flush_delivered_length enqueue_def evict_def split: if_splits)

lemma push_all_append:
  "push_all opts s (xs @ ys) = push_all opts (push_all opts s xs) ys"
  by (induction xs arbitrary: s) simp_all

lemma push_all_without_flush:
  assumes "length (delivered (push_all opts s xs)) = length (delivered s)"
      and "1 \<le> maxBufferSize opts"
      and "length (buffer s) \<le> maxBufferSize opts"
  shows "buffer (push_all opts s xs)
           = drop (length (buffer s) + length xs - maxBufferSize opts) (buffer s @ map snd xs)
       \<and> droppedCount (push_all opts s xs)
           = droppedCount s + (length (buffer s) + length xs - maxBufferSize opts)"
  using assms
proof (induction xs arbitrary: s)
  case Nil
  then show ?case by simp
next
  case (Cons x xs)
  let ?s1 = "push opts (fst x) (snd x) s"
  have lo: "length (delivered s) \<le> length (delivered ?s1)"
    by (rule push_delivered_mono)
  have hi: "length (delivered ?s1) \<le> length (delivered (push_all opts ?s1 xs))"
    by (rule push_all_delivered_mono)
  from Cons.prems(1) lo hi have same1: "length (delivered ?s1) = length (delivered s)"
    by simp
  with Cons.prems(1) have same2:
    "length (delivered (push_all opts ?s1 xs)) = length (delivered ?s1)" by simp
  note step = push_without_flush [OF same1]
  show ?case
  proof (cases "maxBufferSize opts \<le> length (buffer s)")
    case True
    with Cons.prems(3) have full: "length (buffer s) = maxBufferSize opts" by simp
    with Cons.prems(2) obtain b bs where b: "buffer s = b # bs" by (cases "buffer s") auto
    from step full b have b1: "buffer ?s1 = bs @ [snd x]"
      and d1: "droppedCount ?s1 = droppedCount s + 1"
      by (simp_all add: enqueue_def evict_def)
    from full b have mx: "maxBufferSize opts = Suc (length bs)" by simp
    from b1 mx have len1: "length (buffer ?s1) \<le> maxBufferSize opts" by simp
    from Cons.IH [OF same2 Cons.prems(2) len1] b1 d1 b mx
    show ?thesis by simp
  next
    case False
    with step have b1: "buffer ?s1 = buffer s @ [snd x]"
      and d1: "droppedCount ?s1 = droppedCount s"
      by (simp_all add: enqueue_def evict_def)
    from b1 False have len1: "length (buffer ?s1) \<le> maxBufferSize opts" by simp
    from Cons.IH [OF same2 Cons.prems(2) len1] b1 d1 False
    show ?thesis by (simp add: Suc_diff_le)
  qed
qed

lemma prefix_without_flush:
  assumes "length (delivered (push_all opts s xs)) = length (delivered s)"
  shows "length (delivered (push_all opts s (take n xs))) = length (delivered s)"
proof -
  have "push_all opts s xs = push_all opts (push_all opts s (take n xs)) (drop n xs)"
    using push_all_append [of opts s "take n xs" "drop n xs"] by simp
  then have "length (delivered (push_all opts s (take n xs)))
               \<le> length (delivered (push_all opts s xs))"
    using push_all_delivered_mono [of "push_all opts s (take n xs)" opts "drop n xs"] by simp
  with assms push_all_delivered_mono [of s opts "take n xs"] show ?thesis by simp
qed

lemma prefix_state:
  assumes cap: "1 \<le> maxBufferSize opts"
      and fresh: "buffer s0 = []" "droppedCount s0 = 0"
      and no_flush: "delivered (push_all opts s0 xs) = delivered s0"
  shows "buffer (push_all opts s0 (take n xs))
           = drop (length (take n xs) - maxBufferSize opts) (map snd (take n xs))"
    and "droppedCount (push_all opts s0 (take n xs)) = length (take n xs) - maxBufferSize opts"
proof -
  from no_flush have "length (delivered (push_all opts s0 xs)) = length (delivered s0)"
    by simp
  then have "length (delivered (push_all opts s0 (take n xs))) = length (delivered s0)"
    by (rule prefix_without_flush)
  from push_all_without_flush [OF this cap] fresh
  show "buffer (push_all opts s0 (take n xs))
           = drop (length (take n xs) - maxBufferSize opts) (map snd (take n xs))"
    and "droppedCount (push_all opts s0 (take n xs)) = length (take n xs) - maxBufferSize opts"
    by simp_all
qed

lemma prefix_step:
  assumes no_flush: "delivered (push_all opts s0 xs) = delivered s0"
      and n: "n < length xs"
  shows "buffer (push_all opts s0 (take (Suc n) xs))
           = buffer (enqueue (snd (xs ! n)) (evict opts (push_all opts s0 (take n xs))))"
    and "droppedCount (push_all opts s0 (take (Suc n) xs))
           = droppedCount (evict opts (push_all opts s0 (take n xs)))"
proof -
  let ?s = "push_all opts s0 (take n xs)"
  from no_flush have l: "length (delivered (push_all opts s0 xs)) = length (delivered s0)"
    by simp
  from n have "take (Suc n) xs = take n xs @ [xs ! n]"
    by (rule take_Suc_conv_app_nth)
  then have step: "push_all opts s0 (take (Suc n) xs) = push opts (fst (xs ! n)) (snd (xs ! n)) ?s"
    by (simp add: push_all_append)
  from prefix_without_flush [OF l, of "Suc n"] prefix_without_flush [OF l, of n] step
  have "length (delivered (push opts (fst (xs ! n)) (snd (xs ! n)) ?s)) = length (delivered ?s)"
    by simp
  from push_without_flush [OF this] step
  show "buffer (push_all opts s0 (take (Suc n) xs))
           = buffer (enqueue (snd (xs ! n)) (evict opts ?s))"
    and "droppedCount (push_all opts s0 (take (Suc n) xs)) = droppedCount (evict opts ?s)"
    by simp_all
qed

text \<open>
  C3. For every capacity \<open>C \<ge> 1\<close> and every run of \<open>push\<close> calls into an empty
  buffer with a zero counter during which nothing is handed to the consumer (no
  flush): after every prefix of the run the queue holds at most \<open>C\<close> entries; inside
  each push the queue is below \<open>C\<close> after the eviction and at most \<open>C\<close> after the
  append; a push that finds the queue full drops exactly its oldest entry and counts
  one drop, any other push drops nothing; after all \<open>N\<close> pushes the counter is
  \<open>max 0 (N - C)\<close> and the queue holds the last \<open>min N C\<close> items pushed.
\<close>

theorem C3_buffer_bound:
  assumes cap: "1 \<le> maxBufferSize opts"
      and fresh: "buffer s0 = []" "droppedCount s0 = 0"
      and no_flush: "delivered (push_all opts s0 xs) = delivered s0"
  shows "(\<forall>n \<le> length xs.
            length (buffer (push_all opts s0 (take n xs))) \<le> maxBufferSize opts)
       \<and> (\<forall>n < length xs.
            (let s = push_all opts s0 (take n xs);
                 s' = push_all opts s0 (take (Suc n) xs);
                 item = snd (xs ! n)
             in length (buffer (evict opts s)) < maxBufferSize opts
              \<and> length (buffer (enqueue item (evict opts s))) \<le> maxBufferSize opts
              \<and> (if length (buffer s) = maxBufferSize opts
                  then buffer s' = tl (buffer s) @ [item]
                     \<and> droppedCount s' = droppedCount s + 1
                  else buffer s' = buffer s @ [item]
                     \<and> droppedCount s' = droppedCount s)))
       \<and> int (droppedCount (push_all opts s0 xs))
           = max 0 (int (length xs) - int (maxBufferSize opts))
       \<and> buffer (push_all opts s0 xs)
           = drop (length xs - maxBufferSize opts) (map snd xs)"
proof (intro conjI allI impI)
  fix n assume "n \<le> length xs"
  from prefix_state(1) [OF cap fresh no_flush, of n]
  show "length (buffer (push_all opts s0 (take n xs))) \<le> maxBufferSize opts"
    by simp
next
  fix n assume n: "n < length xs"
  let ?s = "push_all opts s0 (take n xs)"
  from prefix_state(1) [OF cap fresh no_flush, of n]
  have len: "length (buffer ?s) \<le> maxBufferSize opts" by simp
  from len cap have ev: "length (buffer (evict opts ?s)) < maxBufferSize opts"
    by (auto simp add: evict_def)
  then have ap: "length (buffer (enqueue (snd (xs ! n)) (evict opts ?s))) \<le> maxBufferSize opts"
    by (simp add: enqueue_def)
  note st = prefix_step [OF no_flush n]
  from len st have
    "if length (buffer ?s) = maxBufferSize opts
     then buffer (push_all opts s0 (take (Suc n) xs)) = tl (buffer ?s) @ [snd (xs ! n)]
        \<and> droppedCount (push_all opts s0 (take (Suc n) xs)) = droppedCount ?s + 1
     else buffer (push_all opts s0 (take (Suc n) xs)) = buffer ?s @ [snd (xs ! n)]
        \<and> droppedCount (push_all opts s0 (take (Suc n) xs)) = droppedCount ?s"
    by (auto simp add: enqueue_def evict_def)
  with ev ap show
    "let s = push_all opts s0 (take n xs);
         s' = push_all opts s0 (take (Suc n) xs);
         item = snd (xs ! n)
     in length (buffer (evict opts s)) < maxBufferSize opts
      \<and> length (buffer (enqueue item (evict opts s))) \<le> maxBufferSize opts
      \<and> (if length (buffer s) = maxBufferSize opts
          then buffer s' = tl (buffer s) @ [item]
             \<and> droppedCount s' = droppedCount s + 1
          else buffer s' = buffer s @ [item]
             \<and> droppedCount s' = droppedCount s)"
    by (simp only: Let_def)
next
  from prefix_state(2) [OF cap fresh no_flush, of "length xs"]
  show "int (droppedCount (push_all opts s0 xs))
           = max 0 (int (length xs) - int (maxBufferSize opts))"
    by simp
next
  from prefix_state(1) [OF cap fresh no_flush, of "length xs"]
  show "buffer (push_all opts s0 xs) = drop (length xs - maxBufferSize opts) (map snd xs)"
    by simp
qed

theorem C3_buffer_bound_witness:
  "1 \<le> maxBufferSize \<lparr>maxBufferSize = 2, flushIntervalMs = 16\<rparr>
   \<and> buffer (initial_buffer :: string BufferRefs) = []
   \<and> droppedCount (initial_buffer :: string BufferRefs) = 0
   \<and> delivered (push_all \<lparr>maxBufferSize = 2, flushIntervalMs = 16\<rparr> initial_buffer
         [(1, ''a''), (2, ''b''), (3, ''c'')]) = delivered (initial_buffer :: string BufferRefs)
   \<and> int (droppedCount (push_all \<lparr>maxBufferSize = 2, flushIntervalMs = 16\<rparr> initial_buffer
         [(1, ''a''), (2, ''b''), (3, ''c'')])) = 1
   \<and> buffer (push_all \<lparr>maxBufferSize = 2, flushIntervalMs = 16\<rparr> initial_buffer
         [(1, ''a''), (2, ''b''), (3, ''c'')]) = [''b'', ''c'']"
proof -
  let ?o = "\<lparr>maxBufferSize = 2, flushIntervalMs = 16\<rparr>"
  let ?s0 = "initial_buffer :: string BufferRefs"
  let ?xs = "[(1, ''a''), (2, ''b''), (3, ''c'')] :: (int \<times> string) list"
  let ?s1 = "?s0\<lparr>buffer := [''a''], isThrottling := True, flushTimeout := Some 15\<rparr>"
  let ?s2 = "?s0\<lparr>buffer := [''a'', ''b''], isThrottling := True, flushTimeout := Some 15\<rparr>"
  let ?s3 = "?s0\<lparr>buffer := [''b'', ''c''], droppedCount := 1, isThrottling := True,
               flushTimeout := Some 15\<rparr>"
  have p1: "push ?o 1 ''a'' ?s0 = ?s1"
    by (simp add: initial_buffer_def push_def evict_def enqueue_def scheduleFlush_def)
  have p2: "push ?o 2 ''b'' ?s1 = ?s2"
    by (simp add: initial_buffer_def push_def evict_def enqueue_def scheduleFlush_def)
  have p3: "push ?o 3 ''c'' ?s2 = ?s3"
    by (simp add: initial_buffer_def push_def evict_def enqueue_def scheduleFlush_def)
  have "push_all ?o ?s0 ?xs = ?s3"
    by (simp only: push_all.simps fst_conv snd_conv p1 p2 p3)
  then have run: "delivered (push_all ?o ?s0 ?xs) = []"
    by (simp add: initial_buffer_def)
  have h1: "1 \<le> maxBufferSize ?o" by simp
  have h2: "buffer ?s0 = []" by (simp add: initial_buffer_def)
  have h3: "droppedCount ?s0 = 0" by (simp add: initial_buffer_def)
  have h4: "delivered (push_all ?o ?s0 ?xs) = delivered ?s0"
    unfolding run by (simp add: initial_buffer_def)
  from C3_buffer_bound [OF h1 h2 h3 h4]
  have "int (droppedCount (push_all ?o ?s0 ?xs))
          = max 0 (int (length ?xs) - int (maxBufferSize ?o))
      \<and> buffer (push_all ?o ?s0 ?xs) = drop (length ?xs - maxBufferSize ?o) (map snd ?xs)"
    by blast
  then have "int (droppedCount (push_all ?o ?s0 ?xs)) = 1
      \<and> buffer (push_all ?o ?s0 ?xs) = [''b'', ''c'']"
    by simp
  with h1 h2 h3 h4 show ?thesis by blast
qed

section \<open>Manual reconciliation\<close>

lemma reconcile_route_eq:
  "reconcilePayout None bid body now payoutStore = reconcilePayout_route bid body now payoutStore"
  by (simp add: reconcilePayout_def reconcilePayout_route_def)

lemma reconcile_success:
  assumes "reconcilePayout_route bid body now payoutStore = (Success c b', store')"
      and "payoutStore bid = Some batch"
  shows "\<exists>resolved. resolvedStatus body = Some resolved
           \<and> b' = updatedBatch batch resolved body now
           \<and> store' = payoutStore(bid \<mapsto> b')"
  using assms
  by (auto simp add: reconcilePayout_route_def split: if_splits option.splits)

text \<open>
  C10. A successful reconciliation, by either handler, leaves the \<open>items\<close> array,
  every item's status and the counters \<open>settledItemCount\<close> and \<open>failedItemCount\<close>
  exactly as they were; \<open>settledAmount\<close> stays when none is supplied; apart from
  \<open>status\<close>, \<open>attentionLevel\<close>, \<open>attentionReason\<close>, \<open>reconciliationNotes\<close>,
  \<open>lastReconciledAt\<close>, \<open>settledAt\<close> and \<open>settledAmount\<close> no field of the batch
  differs, and the store changes at this batch only. Nothing here looks at the
  items, so this holds also when the batch is resolved as settled while items are
  recorded as failed.
\<close>

theorem C10_reconcile_frame:
  assumes "reconcilePayout None bid body now payoutStore = (Success c b', store')
         \<or> reconcilePayout_route bid body now payoutStore = (Success c b', store')"
      and "payoutStore bid = Some batch"
  shows "items b' = items batch
       \<and> map item_status (items b') = map item_status (items batch)
       \<and> settledItemCount b' = settledItemCount batch
       \<and> failedItemCount b' = failedItemCount batch
       \<and> (rec_settledAmount body = None \<longrightarrow> settledAmount b' = settledAmount batch)
       \<and> b'\<lparr>batch_status := batch_status batch,
              attentionLevel := attentionLevel batch,
              attentionReason := attentionReason batch,
              reconciliationNotes := reconciliationNotes batch,
              lastReconciledAt := lastReconciledAt batch,
              settledAt := settledAt batch,
              settledAmount := settledAmount batch\<rparr> = batch
       \<and> store' = payoutStore(bid \<mapsto> b')"
proof -
  from assms(1) have "reconcilePayout_route bid body now payoutStore = (Success c b', store')"
    by (simp add: reconcile_route_eq)
  from reconcile_success [OF this assms(2)] obtain resolved where
    b': "b' = updatedBatch batch resolved body now" and st: "store' = payoutStore(bid \<mapsto> b')"
    by blast
  from b' st show ?thesis by (simp add: updatedBatch_def)
qed

theorem C10_reconcile_frame_witness:
  "reconcilePayout None ''po_1''
      \<lparr>resolvedStatus = Some b_settled, rec_notes = Some ''confirmed with bank'',
       rec_settledAmount = None\<rparr> ''2026-01-04T00:00:00.000Z'' [''po_1'' \<mapsto> sample_batch]
     = (Success 200 (updatedBatch sample_batch b_settled
          \<lparr>resolvedStatus = Some b_settled, rec_notes = Some ''confirmed with bank'',
           rec_settledAmount = None\<rparr> ''2026-01-04T00:00:00.000Z''),
        [''po_1'' \<mapsto> updatedBatch sample_batch b_settled
          \<lparr>resolvedStatus = Some b_settled, rec_notes = Some ''confirmed with bank'',
           rec_settledAmount = None\<rparr> ''2026-01-04T00:00:00.000Z''])
   \<and> [''po_1'' \<mapsto> sample_batch] ''po_1'' = Some sample_batch
   \<and> batch_status (updatedBatch sample_batch b_settled
          \<lparr>resolvedStatus = Some b_settled, rec_notes = Some ''confirmed with bank'',
           rec_settledAmount = None\<rparr> ''2026-01-04T00:00:00.000Z'') = b_settled
   \<and> map item_status (items (updatedBatch sample_batch b_settled
          \<lparr>resolvedStatus = Some b_settled, rec_notes = Some ''confirmed with bank'',
           rec_settledAmount = None\<rparr> ''2026-01-04T00:00:00.000Z'')) = [i_failed, i_settled]
   \<and> failedItemCount (updatedBatch sample_batch b_settled
          \<lparr>resolvedStatus = Some b_settled, rec_notes = Some ''confirmed with bank'',
           rec_settledAmount = None\<rparr> ''2026-01-04T00:00:00.000Z'') = 1"
proof -
  let ?body = "\<lparr>resolvedStatus = Some b_settled, rec_notes = Some ''confirmed with bank'',
       rec_settledAmount = None\<rparr>"
  let ?now = "''2026-01-04T00:00:00.000Z''"
  let ?st = "[''po_1'' \<mapsto> sample_batch]"
  let ?b = "updatedBatch sample_batch b_settled ?body ?now"
  have run: "reconcilePayout None ''po_1'' ?body ?now ?st = (Success 200 ?b, [''po_1'' \<mapsto> ?b])"
    by (simp add: reconcilePayout_def validResolutions_def sample_batch_def)
  have stored: "?st ''po_1'' = Some sample_batch" by simp
  have "map item_status (items ?b) = map item_status (items sample_batch)
      \<and> failedItemCount ?b = failedItemCount sample_batch"
    using C10_reconcile_frame [OF disjI1 [OF run] stored] by blast
  then have "map item_status (items ?b) = [i_failed, i_settled] \<and> failedItemCount ?b = 1"
    by (simp add: sample_batch_def sample_items_def)
  moreover have "batch_status ?b = b_settled" by (simp add: updatedBatch_def)
  ultimately show ?thesis using run stored by blast
qed

text \<open>
  C4. The claim asks for a reconcile request with empty or missing notes to be
  rejected. On a batch in \<open>requires_reconciliation\<close> the mock-service handler
  answers 200 to a request with the empty string as notes, and the API route
  answers 200 to a request without notes; both write the resolved batch to the
  store. Neither handler reads \<open>notes\<close> before storing it.
\<close>

theorem C4_reconcile_accepts_empty_notes:
  "reconcilePayout None ''po_1''
      \<lparr>resolvedStatus = Some b_settled, rec_notes = Some [], rec_settledAmount = None\<rparr>
      ''2026-01-04T00:00:00.000Z'' [''po_1'' \<mapsto> sample_batch]
     = (Success 200 (sample_batch\<lparr>batch_status := b_settled, attentionLevel := att_none,
          attentionReason := None, reconciliationNotes := Some [],
          lastReconciledAt := Some ''2026-01-04T00:00:00.000Z'',
          settledAt := Some ''2026-01-04T00:00:00.000Z''\<rparr>),
        [''po_1'' \<mapsto> sample_batch\<lparr>batch_status := b_settled, attentionLevel := att_none,
          attentionReason := None, reconciliationNotes := Some [],
          lastReconciledAt := Some ''2026-01-04T00:00:00.000Z'',
          settledAt := Some ''2026-01-04T00:00:00.000Z''\<rparr>])
   \<and> reconcilePayout_route ''po_1''
      \<lparr>resolvedStatus = Some b_failed, rec_notes = None, rec_settledAmount = None\<rparr>
      ''2026-01-04T00:00:00.000Z'' [''po_1'' \<mapsto> sample_batch]
     = (Success 200 (sample_batch\<lparr>batch_status := b_failed, attentionLevel := att_none,
          attentionReason := None, reconciliationNotes := None,
          lastReconciledAt := Some ''2026-01-04T00:00:00.000Z''\<rparr>),
        [''po_1'' \<mapsto> sample_batch\<lparr>batch_status := b_failed, attentionLevel := att_none,
          attentionReason := None, reconciliationNotes := None,
          lastReconciledAt := Some ''2026-01-04T00:00:00.000Z''\<rparr>])"
  by (simp add: reconcilePayout_def reconcilePayout_route_def validResolutions_def
      updatedBatch_def sample_batch_def)

section \<open>Payment transitions: no-op and optimistic lock\<close>

lemma update_idempotency_record_paymentStore:
  "paymentStore (update_idempotency_record p st) = paymentStore st"
  by (simp add: update_idempotency_record_def split: option.splits)

lemma apply_transition_response:
  "fst (apply_transition pid stored body now st)
     = Success 200 (updatedPayment (payment stored) body now)"
  by (simp add: apply_transition_def Let_def)

lemma apply_transition_store:
  "paymentStore (snd (apply_transition pid stored body now st)) pid
     = Some \<lparr>payment = updatedPayment (payment stored) body now,
             version = version stored + 1,
             idempotencyHash = idempotencyHash stored\<rparr>"
  by (simp add: apply_transition_def Let_def update_idempotency_record_paymentStore)

text \<open>
  C8. For every stored payment, in any status, a transition request whose target is
  the current status and whose \<open>expectedVersion\<close> is absent or equal to the stored
  version is answered 200 with the stored payment, and the whole server state (so
  the stored entity and its version) is unchanged; it never reaches the legality
  check. This holds for the mock-service handler (once the fault injector lets the
  request through) and for the API route.
\<close>

theorem C8_same_status_is_noop:
  assumes "paymentStore st pid = Some stored"
      and "targetStatus body = status (payment stored)"
      and "expectedVersion body = None \<or> expectedVersion body = Some (version stored)"
  shows "transitionPayment None pid body now st = (Success 200 (payment stored), st)
       \<and> transitionPayment_route pid body now st = (Success 200 (payment stored), st)"
  using assms by (auto simp add: transitionPayment_def transitionPayment_route_def)

theorem C8_same_status_is_noop_witness:
  "paymentStore (sample_state succeeded 3) ''pay_seed_5''
     = Some \<lparr>payment = sample_payment succeeded, version = 3, idempotencyHash = None\<rparr>
   \<and> targetStatus (transition_to succeeded (Some 3)) = status (sample_payment succeeded)
   \<and> expectedVersion (transition_to succeeded (Some 3)) = Some 3
   \<and> transitionPayment None ''pay_seed_5'' (transition_to succeeded (Some 3))
        ''2026-01-05T00:00:00.000Z'' (sample_state succeeded 3)
       = (Success 200 (sample_payment succeeded), sample_state succeeded 3)
   \<and> transitionPayment_route ''pay_seed_5'' (transition_to succeeded (Some 3))
        ''2026-01-05T00:00:00.000Z'' (sample_state succeeded 3)
       = (Success 200 (sample_payment succeeded), sample_state succeeded 3)"
proof -
  let ?stored = "\<lparr>payment = sample_payment succeeded, version = 3, idempotencyHash = None\<rparr>"
  let ?body = "transition_to succeeded (Some 3)"
  have h1: "paymentStore (sample_state succeeded 3) ''pay_seed_5'' = Some ?stored"
    by (simp add: sample_state_def)
  have h2: "targetStatus ?body = status (payment ?stored)"
    by (simp add: transition_to_def sample_payment_def)
  have h3: "expectedVersion ?body = None \<or> expectedVersion ?body = Some (version ?stored)"
    by (simp add: transition_to_def)
  from C8_same_status_is_noop [OF h1 h2 h3, of "''2026-01-05T00:00:00.000Z''"] h1 h2 h3
  show ?thesis by (simp add: transition_to_def)
qed

text \<open>
  The version guard of the two transition handlers. For a stored payment both
  answer 409 \<open>CONCURRENT_MODIFICATION\<close> exactly when the request carries an
  \<open>expectedVersion\<close> different from the stored version, and then the server state is
  unchanged. When \<open>expectedVersion\<close> is omitted, a transition that the handler's own
  check allows (\<open>canTransition\<close> in the mock service, \<open>VALID_TRANSITIONS\<close> in the
  API route) is applied whatever the stored version is: the response is 200 with
  the updated payment and the stored version is one higher.
\<close>

lemma transition_version_guard:
  assumes "paymentStore st pid = Some stored"
  shows "(fst (transitionPayment None pid body now st) = Failure 409 CONCURRENT_MODIFICATION
           \<longleftrightarrow> (\<exists>v. expectedVersion body = Some v \<and> v \<noteq> version stored))
       \<and> (fst (transitionPayment_route pid body now st) = Failure 409 CONCURRENT_MODIFICATION
           \<longleftrightarrow> (\<exists>v. expectedVersion body = Some v \<and> v \<noteq> version stored))
       \<and> (http_status (fst (transitionPayment None pid body now st)) = 409
           \<longleftrightarrow> (\<exists>v. expectedVersion body = Some v \<and> v \<noteq> version stored))
       \<and> (http_status (fst (transitionPayment_route pid body now st)) = 409
           \<longleftrightarrow> (\<exists>v. expectedVersion body = Some v \<and> v \<noteq> version stored))
       \<and> ((\<exists>v. expectedVersion body = Some v \<and> v \<noteq> version stored) \<longrightarrow>
             snd (transitionPayment None pid body now st) = st
           \<and> snd (transitionPayment_route pid body now st) = st)
       \<and> (expectedVersion body = None
            \<and> status (payment stored) \<noteq> targetStatus body
            \<and> canTransition (status (payment stored)) (targetStatus body) \<longrightarrow>
             fst (transitionPayment None pid body now st)
               = Success 200 (updatedPayment (payment stored) body now)
           \<and> paymentStore (snd (transitionPayment None pid body now st)) pid
               = Some \<lparr>payment = updatedPayment (payment stored) body now,
                       version = version stored + 1,
                       idempotencyHash = idempotencyHash stored\<rparr>)
       \<and> (expectedVersion body = None
            \<and> status (payment stored) \<noteq> targetStatus body
            \<and> route_allows (status (payment stored)) (targetStatus body) \<longrightarrow>
             fst (transitionPayment_route pid body now st)
               = Success 200 (updatedPayment (payment stored) body now)
           \<and> paymentStore (snd (transitionPayment_route pid body now st)) pid
               = Some \<lparr>payment = updatedPayment (payment stored) body now,
                       version = version stored + 1,
                       idempotencyHash = idempotencyHash stored\<rparr>)"
proof -
  let ?mismatch = "\<exists>v. expectedVersion body = Some v \<and> v \<noteq> version stored"
  have guard: "(expectedVersion body \<noteq> None \<and> expectedVersion body \<noteq> Some (version stored))
                 \<longleftrightarrow> ?mismatch"
    by (cases "expectedVersion body") auto
  have m1: "?mismatch \<Longrightarrow>
      transitionPayment None pid body now st = (Failure 409 CONCURRENT_MODIFICATION, st)"
    using assms guard by (simp add: transitionPayment_def)
  have m2: "?mismatch \<Longrightarrow>
      transitionPayment_route pid body now st = (Failure 409 CONCURRENT_MODIFICATION, st)"
    using assms guard by (simp add: transitionPayment_route_def)
  have n1: "\<not> ?mismatch \<Longrightarrow>
      http_status (fst (transitionPayment None pid body now st)) \<noteq> 409
      \<and> fst (transitionPayment None pid body now st) \<noteq> Failure 409 CONCURRENT_MODIFICATION"
    using assms guard
    by (simp add: transitionPayment_def apply_transition_def Let_def)
  have n2: "\<not> ?mismatch \<Longrightarrow>
      http_status (fst (transitionPayment_route pid body now st)) \<noteq> 409
      \<and> fst (transitionPayment_route pid body now st) \<noteq> Failure 409 CONCURRENT_MODIFICATION"
    using assms guard
    by (simp add: transitionPayment_route_def apply_transition_def Let_def)
  have a1: "expectedVersion body = None
            \<and> status (payment stored) \<noteq> targetStatus body
            \<and> canTransition (status (payment stored)) (targetStatus body) \<Longrightarrow>
      transitionPayment None pid body now st = apply_transition pid stored body now st"
    using assms by (simp add: transitionPayment_def)
  have a2: "expectedVersion body = None
            \<and> status (payment stored) \<noteq> targetStatus body
            \<and> route_allows (status (payment stored)) (targetStatus body) \<Longrightarrow>
      transitionPayment_route pid body now st = apply_transition pid stored body now st"
    using assms by (simp add: transitionPayment_route_def)
  show ?thesis
  proof (intro conjI impI)
    show "fst (transitionPayment None pid body now st) = Failure 409 CONCURRENT_MODIFICATION
            \<longleftrightarrow> ?mismatch"
      using m1 n1 by (cases ?mismatch) simp_all
    show "fst (transitionPayment_route pid body now st) = Failure 409 CONCURRENT_MODIFICATION
            \<longleftrightarrow> ?mismatch"
      using m2 n2 by (cases ?mismatch) simp_all
    show "http_status (fst (transitionPayment None pid body now st)) = 409 \<longleftrightarrow> ?mismatch"
      using m1 n1 by (cases ?mismatch) simp_all
    show "http_status (fst (transitionPayment_route pid body now st)) = 409 \<longleftrightarrow> ?mismatch"
      using m2 n2 by (cases ?mismatch) simp_all
  next
    assume ?mismatch
    then show "snd (transitionPayment None pid body now st) = st" using m1 by simp
  next
    assume ?mismatch
    then show "snd (transitionPayment_route pid body now st) = st" using m2 by simp
  next
    assume h: "expectedVersion body = None
            \<and> status (payment stored) \<noteq> targetStatus body
            \<and> canTransition (status (payment stored)) (targetStatus body)"
    show "fst (transitionPayment None pid body now st)
               = Success 200 (updatedPayment (payment stored) body now)"
      using a1 [OF h] by (simp add: apply_transition_response)
  next
    assume h: "expectedVersion body = None
            \<and> status (payment stored) \<noteq> targetStatus body
            \<and> canTransition (status (payment stored)) (targetStatus body)"
    show "paymentStore (snd (transitionPayment None pid body now st)) pid
               = Some \<lparr>payment = updatedPayment (payment stored) body now,
                       version = version stored + 1,
                       idempotencyHash = idempotencyHash stored\<rparr>"
      using a1 [OF h] by (simp add: apply_transition_store)
  next
    assume h: "expectedVersion body = None
            \<and> status (payment stored) \<noteq> targetStatus body
            \<and> route_allows (status (payment stored)) (targetStatus body)"
    show "fst (transitionPayment_route pid body now st)
               = Success 200 (updatedPayment (payment stored) body now)"
      using a2 [OF h] by (simp add: apply_transition_response)
  next
    assume h: "expectedVersion body = None
            \<and> status (payment stored) \<noteq> targetStatus body
            \<and> route_allows (status (payment stored)) (targetStatus body)"
    show "paymentStore (snd (transitionPayment_route pid body now st)) pid
               = Some \<lparr>payment = updatedPayment (payment stored) body now,
                       version = version stored + 1,
                       idempotencyHash = idempotencyHash stored\<rparr>"
      using a2 [OF h] by (simp add: apply_transition_store)
  qed
qed

lemma transition_version_guard_example:
  "paymentStore (sample_state draft 3) ''pay_seed_5''
     = Some \<lparr>payment = sample_payment draft, version = 3, idempotencyHash = None\<rparr>
   \<and> fst (transitionPayment None ''pay_seed_5'' (transition_to submitted (Some 2))
        ''2026-01-05T00:00:00.000Z'' (sample_state draft 3))
       = Failure 409 CONCURRENT_MODIFICATION
   \<and> snd (transitionPayment_route ''pay_seed_5'' (transition_to submitted (Some 2))
        ''2026-01-05T00:00:00.000Z'' (sample_state draft 3))
       = sample_state draft 3
   \<and> canTransition draft submitted
   \<and> paymentStore (snd (transitionPayment None ''pay_seed_5'' (transition_to submitted None)
        ''2026-01-05T00:00:00.000Z'' (sample_state draft 3))) ''pay_seed_5''
       = Some \<lparr>payment = (sample_payment draft)\<lparr>status := submitted,
                  updatedAt := ''2026-01-05T00:00:00.000Z''\<rparr>,
               version = 4, idempotencyHash = None\<rparr>"
proof -
  let ?stored = "\<lparr>payment = sample_payment draft, version = 3, idempotencyHash = None\<rparr>"
  let ?st = "sample_state draft 3"
  let ?now = "''2026-01-05T00:00:00.000Z''"
  let ?stale = "transition_to submitted (Some 2)"
  let ?blind = "transition_to submitted None"
  have h: "paymentStore ?st ''pay_seed_5'' = Some ?stored"
    by (simp add: sample_state_def)
  have legal: "canTransition draft submitted"
    by (simp add: canTransition_iff_spec_edge spec_edge_def)
  have mismatch: "\<exists>v. expectedVersion ?stale = Some v \<and> v \<noteq> version ?stored"
    by (simp add: transition_to_def)
  have blind: "expectedVersion ?blind = None
       \<and> status (payment ?stored) \<noteq> targetStatus ?blind
       \<and> canTransition (status (payment ?stored)) (targetStatus ?blind)"
    using legal by (simp add: transition_to_def sample_payment_def)
  note stale_case = transition_version_guard [OF h, of ?stale ?now]
  note blind_case = transition_version_guard [OF h, of ?blind ?now]
  from stale_case mismatch
  have r1: "fst (transitionPayment None ''pay_seed_5'' ?stale ?now ?st)
              = Failure 409 CONCURRENT_MODIFICATION"
    by blast
  from stale_case mismatch
  have r2: "snd (transitionPayment_route ''pay_seed_5'' ?stale ?now ?st) = ?st"
    by blast
  from blind_case blind
  have "paymentStore (snd (transitionPayment None ''pay_seed_5'' ?blind ?now ?st)) ''pay_seed_5''
          = Some \<lparr>payment = updatedPayment (payment ?stored) ?blind ?now,
                  version = version ?stored + 1,
                  idempotencyHash = idempotencyHash ?stored\<rparr>"
    by blast
  moreover have "updatedPayment (payment ?stored) ?blind ?now
      = (sample_payment draft)\<lparr>status := submitted, updatedAt := ?now\<rparr>"
    by (simp add: updatedPayment_def transition_to_def or_else_def sample_payment_def)
  ultimately
  have r3: "paymentStore (snd (transitionPayment None ''pay_seed_5'' ?blind ?now ?st)) ''pay_seed_5''
          = Some \<lparr>payment = (sample_payment draft)\<lparr>status := submitted, updatedAt := ?now\<rparr>,
                  version = 4, idempotencyHash = None\<rparr>"
    by simp
  from h r1 r2 legal r3 show ?thesis by blast
qed


text \<open>
  The route's table is the state graph without the edge from \<open>submitted\<close> to
  \<open>failed\<close>.
\<close>

lemma route_allows_iff:
  "route_allows f t \<longleftrightarrow> spec_edge f t \<and> \<not> (f = submitted \<and> t = failed)"
  by (cases f; cases t; simp add: route_allows_def spec_edge_def)

text \<open>
  C9. The claim asks that, with \<open>expectedVersion\<close> omitted, an otherwise-legal
  transition be applied whatever the stored version is. For a stored payment in
  \<open>submitted\<close> and a request to \<open>failed\<close> without \<open>expectedVersion\<close>, a transition
  that the state graph and the lifecycle module allow, the API route answers 422
  \<open>INVALID_TRANSITION\<close> and leaves the state as it was, while the mock-service
  handler applies it: 200, status \<open>failed\<close>, version 2.
\<close>

theorem C9_route_rejects_legal_transition:
  "paymentStore (sample_state submitted 1) ''pay_seed_5''
     = Some \<lparr>payment = sample_payment submitted, version = 1, idempotencyHash = None\<rparr>
   \<and> expectedVersion (transition_to failed None) = None
   \<and> spec_edge submitted failed
   \<and> canTransition submitted failed
   \<and> transitionPayment_route ''pay_seed_5'' (transition_to failed None)
        ''2026-01-05T00:00:00.000Z'' (sample_state submitted 1)
       = (Failure 422 INVALID_TRANSITION, sample_state submitted 1)
   \<and> fst (transitionPayment None ''pay_seed_5'' (transition_to failed None)
        ''2026-01-05T00:00:00.000Z'' (sample_state submitted 1))
       = Success 200 ((sample_payment submitted)\<lparr>status := failed,
           updatedAt := ''2026-01-05T00:00:00.000Z'',
           completedAt := Some ''2026-01-05T00:00:00.000Z''\<rparr>)
   \<and> paymentStore (snd (transitionPayment None ''pay_seed_5'' (transition_to failed None)
        ''2026-01-05T00:00:00.000Z'' (sample_state submitted 1))) ''pay_seed_5''
       = Some \<lparr>payment = (sample_payment submitted)\<lparr>status := failed,
                  updatedAt := ''2026-01-05T00:00:00.000Z'',
                  completedAt := Some ''2026-01-05T00:00:00.000Z''\<rparr>,
               version = 2, idempotencyHash = None\<rparr>"
proof -
  let ?st = "sample_state submitted 1"
  let ?body = "transition_to failed None"
  let ?now = "''2026-01-05T00:00:00.000Z''"
  let ?stored = "\<lparr>payment = sample_payment submitted, version = 1, idempotencyHash = None\<rparr>"
  have h: "paymentStore ?st ''pay_seed_5'' = Some ?stored"
    by (simp add: sample_state_def)
  have ev: "expectedVersion ?body = None" and tgt: "targetStatus ?body = failed"
    by (simp_all add: transition_to_def)
  have cur: "status (sample_payment submitted) = submitted"
    by (simp add: sample_payment_def)
  have legal: "spec_edge submitted failed" by (simp add: spec_edge_def)
  have life: "canTransition submitted failed"
    by (simp add: canTransition_iff_spec_edge legal)
  have table: "\<not> route_allows submitted failed"
    by (simp add: route_allows_def)
  have route: "transitionPayment_route ''pay_seed_5'' ?body ?now ?st
                 = (Failure 422 INVALID_TRANSITION, ?st)"
    by (simp add: transitionPayment_route_def h ev tgt cur table)
  have up: "updatedPayment (sample_payment submitted) ?body ?now
      = (sample_payment submitted)\<lparr>status := failed, updatedAt := ?now,
           completedAt := Some ?now\<rparr>"
    by (simp add: updatedPayment_def transition_to_def or_else_def sample_payment_def)
  have mock: "transitionPayment None ''pay_seed_5'' ?body ?now ?st
                = apply_transition ''pay_seed_5'' ?stored ?body ?now ?st"
    by (simp add: transitionPayment_def h ev tgt cur life)
  have m1: "fst (transitionPayment None ''pay_seed_5'' ?body ?now ?st)
      = Success 200 ((sample_payment submitted)\<lparr>status := failed, updatedAt := ?now,
           completedAt := Some ?now\<rparr>)"
    unfolding mock apply_transition_response by (simp add: up)
  have m2: "paymentStore (snd (transitionPayment None ''pay_seed_5'' ?body ?now ?st)) ''pay_seed_5''
      = Some \<lparr>payment = (sample_payment submitted)\<lparr>status := failed, updatedAt := ?now,
                  completedAt := Some ?now\<rparr>,
               version = 2, idempotencyHash = None\<rparr>"
    unfolding mock apply_transition_store by (simp add: up)
  from h ev legal life route m1 m2 show ?thesis by blast
qed

section \<open>Idempotent creation\<close>

lemma sample_key_valid: "isValidIdempotencyKey sample_key"
  by code_simp

lemma sample_hash:
  "hashRequest (body_json sample_request)
     = ''{'' @ [CHR 0x22] @ ''amount'' @ [CHR 0x22] @ '':1000,''
       @ [CHR 0x22] @ ''currency'' @ [CHR 0x22] @ '':'' @ [CHR 0x22] @ ''USD'' @ [CHR 0x22] @ '',''
       @ [CHR 0x22] @ ''intent'' @ [CHR 0x22] @ '':'' @ [CHR 0x22] @ ''capture'' @ [CHR 0x22] @ '',''
       @ [CHR 0x22] @ ''merchantId'' @ [CHR 0x22] @ '':'' @ [CHR 0x22] @ ''m1'' @ [CHR 0x22] @ '',''
       @ [CHR 0x22] @ ''metadata'' @ [CHR 0x22] @ '':{},''
       @ [CHR 0x22] @ ''paymentMethod'' @ [CHR 0x22] @ '':{}}''"
  by code_simp

lemma other_metadata_hash:
  "hashRequest (body_json other_metadata) = hashRequest (body_json sample_request)"
  by code_simp

lemma other_method_hash:
  "hashRequest (body_json other_method) = hashRequest (body_json sample_request)"
  by code_simp

lemma first_create:
  "createPayment None (Some sample_key) sample_request ''pay_1''
      ''2026-01-01T00:00:00.000Z'' empty_state
    = (Success 201 created_payment,
       \<lparr>paymentStore = [''pay_1'' \<mapsto>
          \<lparr>payment = created_payment, version = 1,
           idempotencyHash = Some (hashRequest (body_json sample_request))\<rparr>],
        idempotencyKeyStore = [sample_key \<mapsto>
          \<lparr>paymentId = ''pay_1'', requestHash = hashRequest (body_json sample_request),
           result = created_payment\<rparr>]\<rparr>)"
proof -
  have am: "req_amount sample_request = 1000" by (simp add: sample_request_def)
  have ne: "sample_key \<noteq> []" by (simp add: sample_key_def)
  have pid: "payment_id created_payment = ''pay_1''"
    by (simp add: created_payment_def new_payment_def)
  show ?thesis
    by (simp add: createPayment_def sample_key_valid am ne empty_state_def Let_def
        created_payment_def [symmetric] pid)
qed

lemma created_state_eq:
  "created_state =
       \<lparr>paymentStore = [''pay_1'' \<mapsto>
          \<lparr>payment = created_payment, version = 1,
           idempotencyHash = Some (hashRequest (body_json sample_request))\<rparr>],
        idempotencyKeyStore = [sample_key \<mapsto>
          \<lparr>paymentId = ''pay_1'', requestHash = hashRequest (body_json sample_request),
           result = created_payment\<rparr>]\<rparr>"
  unfolding created_state_def first_create by simp

lemma second_create_same_hash:
  assumes "hashRequest (body_json body) = hashRequest (body_json sample_request)"
  shows "createPayment None (Some sample_key) body newId now created_state
           = (Success 200 created_payment, created_state)"
proof -
  have ne: "sample_key \<noteq> []" by (simp add: sample_key_def)
  show ?thesis
    by (simp add: createPayment_def sample_key_valid ne assms created_state_eq Let_def)
qed

lemma create_twice_identical:
  assumes "createPayment None key body id1 t1 st = (Success 201 p, st1)"
  shows "createPayment None key body id2 t2 st1 = (Success 200 p, st1)"
  using assms
  by (auto simp add: createPayment_def Let_def split: option.splits if_splits)

text \<open>
  C2. The claim asks for a 422 conflict whenever the second body differs from the
  first as a value, nested fields included. After a first creation answered 201
  under a valid key, a second request with the same key whose body differs only in
  \<open>metadata\<close>, or only in \<open>paymentMethod\<close>, is answered 200 with the payment of the
  first request, and the server state is unchanged: the property list passed to
  \<open>JSON.stringify\<close> holds the top-level names only, so every nested object is
  written as \<open>{}\<close> and the two fingerprints coincide.
\<close>

theorem C2_nested_fields_not_fingerprinted:
  "fst (createPayment None (Some sample_key) sample_request ''pay_1''
          ''2026-01-01T00:00:00.000Z'' empty_state) = Success 201 created_payment
   \<and> other_metadata \<noteq> sample_request
   \<and> createPayment None (Some sample_key) other_metadata ''pay_2''
          ''2026-01-01T00:00:05.000Z'' created_state
        = (Success 200 created_payment, created_state)
   \<and> other_method \<noteq> sample_request
   \<and> createPayment None (Some sample_key) other_method ''pay_3''
          ''2026-01-01T00:00:09.000Z'' created_state
        = (Success 200 created_payment, created_state)"
proof -
  have "other_metadata \<noteq> sample_request"
  proof
    assume "other_metadata = sample_request"
    then have "req_metadata other_metadata = req_metadata sample_request" by simp
    then show False by (simp add: other_metadata_def sample_request_def)
  qed
  moreover have "other_method \<noteq> sample_request"
  proof
    assume "other_method = sample_request"
    then have "req_paymentMethod other_method = req_paymentMethod sample_request" by simp
    then show False by (simp add: other_method_def sample_request_def)
  qed
  ultimately show ?thesis
    by (simp add: first_create second_create_same_hash other_metadata_hash other_method_hash)
qed

section \<open>Idempotency records are replaced\<close>











end
